theory Spec2Isabelle
  imports Complex_Main
begin

section \<open>The geodesic kernel of amstramdam (\<^verbatim>\<open>amstramdam/game/geo.py\<close>)\<close>

text \<open>
  Numbers. A Python \<^verbatim>\<open>float\<close> is modelled by a real number: the arithmetic is exact,
  there is no rounding, no infinity and a single zero. The only not-a-number that the
  model knows is the one a numpy function returns outside its domain (\<^verbatim>\<open>np.sqrt\<close> of a
  negative number, \<^verbatim>\<open>np.arcsin\<close> outside \<open>[-1, 1]\<close>); it is the value \<open>None\<close> of
  \<open>real option\<close>. Python's \<^verbatim>\<open>int\<close> is \<open>int\<close>.

  Errors. Every \<^verbatim>\<open>raise\<close> of the source, and every exception of a \<^verbatim>\<open>math\<close> function or
  of an unpacking that the source relies on, is the left summand of a result.
\<close>

datatype py_error = KeyError | ValueError | ZeroDivisionError

text \<open>
  A float that need not be finite. Only the construction of a Point is stated on such
  values, since the constructor stores what it is given; the arithmetic of the kernel is
  modelled on the finite ones, the reals.
\<close>

datatype pyfloat = Finite real | PosInf | NegInf | NaN

type_synonym CoordinatesTuple = "real \<times> real"

type_synonym npfloat = "real option"

subsection \<open>The functions of \<^verbatim>\<open>math\<close> and \<^verbatim>\<open>numpy\<close> that the kernel calls\<close>

definition math_radians :: "real \<Rightarrow> real" where
  "math_radians x = x * pi / 180"

definition math_degrees :: "real \<Rightarrow> real" where
  "math_degrees x = x * 180 / pi"

text \<open>\<^verbatim>\<open>math.asin\<close> raises \<^verbatim>\<open>ValueError\<close> (math domain error) outside \<open>[-1, 1]\<close>.\<close>

definition math_asin :: "real \<Rightarrow> py_error + real" where
  "math_asin x = (if - 1 \<le> x \<and> x \<le> 1 then Inr (arcsin x) else Inl ValueError)"

text \<open>
  \<^verbatim>\<open>math.atan2(y, x)\<close> and \<^verbatim>\<open>np.arctan2\<close>: the angle of the vector \<open>(x, y)\<close> in
  \<open>(-\<pi>, \<pi>]\<close>, and \<open>0\<close> at the origin (the value the C library gives for two positive
  zeros).
\<close>

definition atan2 :: "real \<Rightarrow> real \<Rightarrow> real" where
  "atan2 y x =
     (if 0 < x then arctan (y / x)
      else if x < 0 then (if 0 \<le> y then arctan (y / x) + pi else arctan (y / x) - pi)
      else if 0 < y then pi / 2
      else if y < 0 then - (pi / 2)
      else 0)"

text \<open>
  Python's \<^verbatim>\<open>a % b\<close> on floats: the remainder has the sign of the divisor \<open>b\<close>, that is
  \<open>a - b * floor (a / b)\<close>; a zero divisor raises \<^verbatim>\<open>ZeroDivisionError\<close>.
\<close>

definition float_mod :: "real \<Rightarrow> real \<Rightarrow> py_error + real" where
  "float_mod a b =
     (if b = 0 then Inl ZeroDivisionError else Inr (a - b * of_int \<lfloor>a / b\<rfloor>))"

text \<open>\<^verbatim>\<open>np.arcsin\<close> and \<^verbatim>\<open>np.sqrt\<close> do not raise: outside the domain the element is nan.\<close>

definition np_arcsin :: "real \<Rightarrow> npfloat" where
  "np_arcsin x = (if - 1 \<le> x \<and> x \<le> 1 then Some (arcsin x) else None)"

definition np_sqrt :: "real \<Rightarrow> npfloat" where
  "np_sqrt x = (if x < 0 then None else Some (sqrt x))"

text \<open>\<^verbatim>\<open>np.arange(0, n)\<close>: the integers \<open>0, ..., n - 1\<close>, none when \<open>n \<le> 0\<close>.\<close>

definition np_arange :: "int \<Rightarrow> int list" where
  "np_arange n = [0..n - 1]"

subsection \<open>\<^verbatim>\<open>class Point\<close>\<close>

text \<open>
  The attributes of an instance, as \<^verbatim>\<open>__init__\<close> sets them. The constructor does not
  look at what it stores, so the type of the two attributes is a parameter: \<open>real\<close> for
  the finite floats that the methods and the kernel work on, \<open>pyfloat\<close> where a
  coordinate may be infinite or nan.
\<close>

record 'a Point =
  lon :: 'a
  lat :: 'a

text \<open>\<^verbatim>\<open>__init__\<close> stores its two arguments; it has no check and no \<^verbatim>\<open>raise\<close>.\<close>

definition Point_init :: "'a \<Rightarrow> 'a \<Rightarrow> py_error + 'a Point" where
  "Point_init lo la = Inr \<lparr>lon = lo, lat = la\<rparr>"

definition Point_getitem :: "real Point \<Rightarrow> int \<Rightarrow> py_error + real" where
  "Point_getitem self item =
     (if item = 0 then Inr (lon self)
      else if item = 1 then Inr (lat self)
      else Inl KeyError)"

text \<open>\<^verbatim>\<open>__iter__\<close> yields \<^verbatim>\<open>lon\<close> then \<^verbatim>\<open>lat\<close>; \<^verbatim>\<open>tuple(self)\<close> collects them.\<close>

definition Point_iter :: "real Point \<Rightarrow> CoordinatesTuple" where
  "Point_iter self = (lon self, lat self)"

text \<open>
  \<^verbatim>\<open>__hash__\<close> is \<^verbatim>\<open>hash(tuple(self))\<close>. The built-in hash of a tuple of two floats is a
  parameter \<open>tuple_hash\<close>.
\<close>

definition Point_hash :: "(CoordinatesTuple \<Rightarrow> int) \<Rightarrow> real Point \<Rightarrow> int" where
  "Point_hash tuple_hash self = tuple_hash (Point_iter self)"

text \<open>
  Instances are objects. The store is the list of the objects created so far and a
  reference is an index into it; a construction appends. The class defines no
  \<^verbatim>\<open>__eq__\<close>, so \<^verbatim>\<open>==\<close> on two instances is the one inherited from \<^verbatim>\<open>object\<close>:
  the identity of the references.
\<close>

type_synonym store = "real Point list"

type_synonym ref = nat

definition new_Point :: "store \<Rightarrow> real \<Rightarrow> real \<Rightarrow> py_error + (ref \<times> store)" where
  "new_Point s lo la =
     (case Point_init lo la of
        Inl e \<Rightarrow> Inl e
      | Inr p \<Rightarrow> Inr (length s, s @ [p]))"

definition Point_eq :: "ref \<Rightarrow> ref \<Rightarrow> bool" where
  "Point_eq p q = (p = q)"

text \<open>
  \<^verbatim>\<open>PointLike = Union[CoordinatesTuple, "Point"]\<close>. The kernel reads a point only by
  unpacking it (\<^verbatim>\<open>lon, lat = p\<close>), which iterates over it.
\<close>

datatype PointLike = Tuple real real | Obj "real Point"

fun unpack :: "PointLike \<Rightarrow> CoordinatesTuple" where
  "unpack (Tuple x y) = (x, y)"
| "unpack (Obj p) = Point_iter p"

subsection \<open>Scalar geodesy\<close>

definition to_deg :: "PointLike \<Rightarrow> CoordinatesTuple" where
  "to_deg p = (case unpack p of (lam, phi) \<Rightarrow> (math_degrees lam, math_degrees phi))"

definition to_rad :: "PointLike \<Rightarrow> CoordinatesTuple" where
  "to_rad p = (case unpack p of (lo, la) \<Rightarrow> (math_radians lo, math_radians la))"

definition normalize_angle :: "real \<Rightarrow> py_error + real" where
  "normalize_angle a = float_mod a (2 * pi)"

definition angle :: "PointLike \<Rightarrow> PointLike \<Rightarrow> py_error + real" where
  "angle start point =
     (case to_rad start of (lam1, phi1) \<Rightarrow>
      case to_rad point of (lam2, phi2) \<Rightarrow>
        let y = sin (lam2 - lam1) * cos phi2;
            x = cos phi1 * sin phi2 - sin phi1 * cos phi2 * cos (lam2 - lam1);
            theta = atan2 y x
        in normalize_angle theta)"

definition get_curr_angle :: "PointLike \<Rightarrow> PointLike \<Rightarrow> PointLike \<Rightarrow> py_error + real" where
  "get_curr_angle point ref center =
     (case angle center ref of
        Inl e \<Rightarrow> Inl e
      | Inr to_ref \<Rightarrow>
          (case normalize_angle (to_ref + pi / 2) of
             Inl e \<Rightarrow> Inl e
           | Inr normal_angle \<Rightarrow>
               (case angle ref point of
                  Inl e \<Rightarrow> Inl e
                | Inr to_point \<Rightarrow> normalize_angle (to_point - normal_angle))))"

definition move :: "PointLike \<Rightarrow> real \<Rightarrow> real \<Rightarrow> py_error + CoordinatesTuple" where
  "move start theta distance =
     (case to_rad start of (lam, phi) \<Rightarrow>
        let delta = distance / 6371 in
        (case math_asin (sin phi * cos delta + cos phi * sin delta * cos theta) of
           Inl e \<Rightarrow> Inl e
         | Inr phi2 \<Rightarrow>
             let lam2 = lam + atan2 (sin delta * sin theta * cos phi)
                                    (cos delta - sin phi * sin phi2)
             in (case to_deg (Tuple lam2 phi2) of (lon2, lat2) \<Rightarrow> Inr (lon2, lat2))))"

text \<open>
  \<^verbatim>\<open>move_given_angle\<close> prints when \<^verbatim>\<open>verbose\<close> is set. A printed line is kept by its
  values (the formatting of a float is not modelled); the function returns its value
  together with the lines it printed.
\<close>

datatype out_line =
  Angle_line real real
| Start_line real real
| End_line real real
| Blank_line

definition move_given_angle ::
  "real \<Rightarrow> PointLike \<Rightarrow> real \<Rightarrow> bool \<Rightarrow> py_error + (CoordinatesTuple \<times> out_line list)" where
  "move_given_angle theta start distance verbose =
     (case to_rad start of (lam, phi) \<Rightarrow>
        let delta = distance / 6371 in
        (case math_asin (sin phi * cos delta + cos phi * sin delta * cos theta) of
           Inl e \<Rightarrow> Inl e
         | Inr phi2 \<Rightarrow>
             let lam2 = lam + atan2 (sin delta * sin theta * cos phi)
                                    (cos delta - sin phi * sin phi2)
             in (case to_deg (Tuple lam2 phi2) of (lon2, lat2) \<Rightarrow>
                   Inr ((lon2, lat2),
                        if verbose
                        then [Angle_line theta (math_degrees theta),
                              Start_line (fst (unpack start)) (snd (unpack start)),
                              End_line lon2 lat2,
                              Blank_line]
                        else []))))"

subsection \<open>Batch geodesy\<close>

text \<open>
  A one-dimensional numpy array is a list, an elementwise operation a \<open>map\<close>.

  \<^verbatim>\<open>vectorized_distance\<close>: \<^verbatim>\<open>np.deg2rad(points)\<close> has shape \<open>(n, 2)\<close> for \<open>n \<ge> 1\<close> points
  and its transpose unpacks into the row of longitudes and the row of latitudes. For
  the empty list the array has shape \<open>(0,)\<close>, so the unpacking into two names raises
  \<^verbatim>\<open>ValueError\<close> (not enough values to unpack).
\<close>

definition vectorized_distance ::
  "PointLike \<Rightarrow> CoordinatesTuple list \<Rightarrow> py_error + npfloat list" where
  "vectorized_distance ref points =
     (if points = [] then Inl ValueError
      else
        let lons = map (\<lambda>p. math_radians (fst p)) points;
            lats = map (\<lambda>p. math_radians (snd p)) points
        in case to_rad ref of (lo, la) \<Rightarrow>
          let a = map (\<lambda>(lats_i, lons_i).
                         (sin ((lats_i - la) / 2))\<^sup>2
                         + cos la * cos lats_i * (sin ((lons_i - lo) / 2))\<^sup>2)
                      (zip lats lons)
          in Inr (map (\<lambda>a_i.
                         case np_sqrt a_i of
                           None \<Rightarrow> None
                         | Some y \<Rightarrow>
                             (case np_sqrt (1 - a_i) of
                                None \<Rightarrow> None
                              | Some x \<Rightarrow> Some (6371 * 2 * atan2 y x)))
                      a))"

definition vectorized_circle ::
  "PointLike \<Rightarrow> real \<Rightarrow> int option \<Rightarrow> (npfloat \<times> npfloat) list" where
  "vectorized_circle center dist_km n_points_arg =
     (let n_points =
            (case n_points_arg of
               None \<Rightarrow> (let full_length = 2 * pi * dist_km; every = 1 in \<lfloor>full_length / every\<rfloor>)
             | Some n \<Rightarrow> n);
          thetas = map (\<lambda>k. 2 * pi * of_int k / of_int n_points) (np_arange n_points)
      in case to_rad center of (lam, phi) \<Rightarrow>
        let delta = dist_km / 6371;
            phi2 = map (\<lambda>t. np_arcsin (sin phi * cos delta + cos phi * sin delta * cos t))
                       thetas;
            lam2 = map (\<lambda>(t, p2).
                          map_option
                            (\<lambda>q. lam + atan2 (sin delta * sin t * cos phi)
                                              (cos delta - sin phi * sin q))
                            p2)
                       (zip thetas phi2)
        in zip (map (map_option math_degrees) lam2) (map (map_option math_degrees) phi2))"

subsection \<open>What the specification names\<close>

text \<open>
  The range of a coordinate, in the specification's words: longitude in \<open>(-180, 180]\<close>,
  latitude in \<open>[-90, 90]\<close>.
\<close>

definition valid_coordinate :: "real \<Rightarrow> real \<Rightarrow> bool" where
  "valid_coordinate lo la \<longleftrightarrow> - 180 < lo \<and> lo \<le> 180 \<and> - 90 \<le> la \<and> la \<le> 90"

text \<open>The same on floats: a coordinate that is not finite is not valid.\<close>

fun valid_float_coordinate :: "pyfloat \<Rightarrow> pyfloat \<Rightarrow> bool" where
  "valid_float_coordinate (Finite lo) (Finite la) = valid_coordinate lo la"
| "valid_float_coordinate _ _ = False"

text \<open>
  The haversine distance on a sphere of radius 6371 km, in its textbook form: the
  haversine of the central angle is
  \<open>h = sin\<^sup>2 (\<Delta>\<phi>/2) + cos \<phi>\<^sub>1 cos \<phi>\<^sub>2 sin\<^sup>2 (\<Delta>\<lambda>/2)\<close> and the distance is
  \<open>2 R arcsin (sqrt h)\<close>. Points are \<open>(lon, lat)\<close> in degrees.
\<close>

definition haversine :: "CoordinatesTuple \<Rightarrow> CoordinatesTuple \<Rightarrow> real" where
  "haversine p q =
     (let lam1 = fst p * pi / 180; phi1 = snd p * pi / 180;
          lam2 = fst q * pi / 180; phi2 = snd q * pi / 180;
          h = (sin ((phi2 - phi1) / 2))\<^sup>2 + cos phi1 * cos phi2 * (sin ((lam2 - lam1) / 2))\<^sup>2
      in 2 * 6371 * arcsin (sqrt h))"

section \<open>Properties\<close>

subsection \<open>Indexing a point\<close>

text \<open>
  C9. Indexing a Point is defined on 0 and 1 only: \<open>p[0]\<close> is \<open>p.lon\<close>, \<open>p[1]\<close> is
  \<open>p.lat\<close>, and every other integer index raises \<^verbatim>\<open>KeyError\<close>.
\<close>

theorem Point_getitem_total_on_0_1:
  "Point_getitem p 0 = Inr (lon p) \<and> Point_getitem p 1 = Inr (lat p)
   \<and> (\<forall>i. i \<noteq> 0 \<and> i \<noteq> 1 \<longrightarrow> Point_getitem p i = Inl KeyError)"
  by (simp add: Point_getitem_def)

theorem Point_getitem_total_on_0_1_witness:
  "Point_getitem \<lparr>lon = 2, lat = 48\<rparr> 0 = Inr 2 \<and> Point_getitem \<lparr>lon = 2, lat = 48\<rparr> 1 = Inr 48
   \<and> (2::int) \<noteq> 0 \<and> (2::int) \<noteq> 1 \<and> Point_getitem \<lparr>lon = 2, lat = 48\<rparr> 2 = Inl KeyError
   \<and> Point_getitem \<lparr>lon = 2, lat = 48\<rparr> (- 1) = Inl KeyError"
  using Point_getitem_total_on_0_1 [of "\<lparr>lon = 2, lat = 48\<rparr>"] by simp

subsection \<open>Normalising an angle\<close>




subsection \<open>Bearing\<close>

lemma normalize_angle_0: "normalize_angle 0 = Inr 0"
  by (simp add: normalize_angle_def float_mod_def)

text \<open>
  C4. The bearing from a point to itself is exactly 0: \<open>angle p p\<close> returns 0 and does
  not raise.
\<close>

theorem angle_coincident: "angle p p = Inr 0"
  by (cases "to_rad p") (simp add: angle_def atan2_def normalize_angle_0 Let_def mult.commute)

subsection \<open>The two destination functions\<close>

text \<open>
  C10. With \<^verbatim>\<open>verbose\<close> left at its default \<^verbatim>\<open>False\<close>, \<open>move_given_angle theta start d\<close>
  returns what \<open>move start theta d\<close> returns (the same point, or the same error) and
  prints nothing.
\<close>

theorem move_given_angle_eq_move:
  "move_given_angle theta start d False =
     (case move start theta d of Inl e \<Rightarrow> Inl e | Inr r \<Rightarrow> Inr (r, []))"
  by (simp add: move_given_angle_def move_def Let_def split: prod.splits sum.splits)

subsection \<open>The destination never leaves the domain of the arc sine\<close>




lemma normalize_angle_returns: "\<exists>r. normalize_angle a = Inr r"
  by (simp add: normalize_angle_def float_mod_def)

lemma angle_returns: "\<exists>r. angle start point = Inr r"
  by (cases "to_rad start"; cases "to_rad point")
     (simp add: angle_def Let_def normalize_angle_returns)

lemma get_curr_angle_returns: "\<exists>r. get_curr_angle point ref center = Inr r"
proof -
  obtain a1 where a1: "angle center ref = Inr a1" using angle_returns by blast
  obtain n where n: "normalize_angle (a1 + pi / 2) = Inr n"
    using normalize_angle_returns by blast
  obtain a2 where a2: "angle ref point = Inr a2" using angle_returns by blast
  show ?thesis
    using normalize_angle_returns [of "a2 - n"] by (simp add: get_curr_angle_def a1 n a2)
qed

subsection \<open>The number of points of a circle\<close>

lemma np_arange_length: "length (np_arange n) = nat n"
  by (simp add: np_arange_def)

lemma vectorized_circle_length: "length (vectorized_circle center d (Some n)) = nat n"
  by (cases "to_rad center") (simp add: vectorized_circle_def Let_def np_arange_length)

subsection \<open>Constructing a point\<close>

text \<open>
  C2, as the specification states it, fails in both halves. A longitude of 200 with a
  latitude of 100 is out of range and an infinite latitude is not finite, and each
  construction returns a Point holding the values. And a Point constructed from the
  valid pair \<open>(2, 48)\<close> does not keep a kernel operation from failing:
  \<open>vectorized_distance\<close> from it to the empty list raises.
\<close>

theorem Point_init_out_of_range_counterexample:
  "\<not> valid_coordinate 200 100
   \<and> Point_init (200::real) 100 = Inr \<lparr>lon = 200, lat = 100\<rparr>
   \<and> \<not> valid_float_coordinate (Finite 0) PosInf
   \<and> Point_init (Finite 0) PosInf = Inr \<lparr>lon = Finite 0, lat = PosInf\<rparr>
   \<and> valid_coordinate 2 48
   \<and> Point_init (2::real) 48 = Inr \<lparr>lon = 2, lat = 48\<rparr>
   \<and> vectorized_distance (Obj \<lparr>lon = 2, lat = 48\<rparr>) [] = Inl ValueError"
  by (simp add: valid_coordinate_def Point_init_def vectorized_distance_def)

text \<open>
  C2, amended. The construction of a Point checks nothing and never raises: whatever
  the two values are, out of range or not finite, it returns a Point that holds exactly
  them as longitude and latitude. Given a Point of finite coordinates, in range or not,
  \<open>angle\<close> (in either argument position), \<open>get_curr_angle\<close> (in any argument position)
  and \<open>normalize_angle\<close> return a value and do not raise, and \<open>vectorized_circle\<close> with
  a given count \<open>n\<close> returns \<open>max n 0\<close> points. Nothing is said of \<open>move\<close>,
  \<open>move_given_angle\<close>, \<open>vectorized_distance\<close> and \<^verbatim>\<open>distance\<close>, nor of a Point with a
  coordinate that is not finite.
\<close>

theorem Point_init_stores_unchecked:
  "Point_init x y = Inr \<lparr>lon = x, lat = y\<rparr>
   \<and> (\<exists>p. Point_init lo la = Inr p \<and> lon p = lo \<and> lat p = la
         \<and> (\<exists>r. angle (Obj p) other = Inr r)
         \<and> (\<exists>r. angle other (Obj p) = Inr r)
         \<and> (\<exists>r. get_curr_angle (Obj p) other center = Inr r)
         \<and> (\<exists>r. get_curr_angle other (Obj p) center = Inr r)
         \<and> (\<exists>r. get_curr_angle other center (Obj p) = Inr r)
         \<and> (\<exists>r. normalize_angle a = Inr r)
         \<and> length (vectorized_circle (Obj p) d (Some n)) = nat n)"
  using angle_returns get_curr_angle_returns normalize_angle_returns
  by (simp add: Point_init_def vectorized_circle_length)

subsection \<open>Equality and hash of a point\<close>

lemma Point_hash_by_value:
  "lon p = lon q \<Longrightarrow> lat p = lat q \<Longrightarrow> Point_hash h p = Point_hash h q"
  by (simp add: Point_hash_def Point_iter_def)

text \<open>
  C1. Two Points constructed one after the other from the same longitude 1 and latitude 2
  hold equal fields, yet \<^verbatim>\<open>==\<close> on them is false: with no \<^verbatim>\<open>__eq__\<close> in the class, equality
  is the identity of the two objects, not the equality of their fields.
\<close>

theorem Point_eq_is_identity:
  "new_Point [] 1 2 = Inr (0, [\<lparr>lon = 1, lat = 2\<rparr>])
   \<and> new_Point [\<lparr>lon = 1, lat = 2\<rparr>] 1 2 = Inr (1, [\<lparr>lon = 1, lat = 2\<rparr>, \<lparr>lon = 1, lat = 2\<rparr>])
   \<and> lon ([\<lparr>lon = 1, lat = 2\<rparr>, \<lparr>lon = 1, lat = 2\<rparr>] ! 0) = lon ([\<lparr>lon = 1, lat = 2\<rparr>, \<lparr>lon = 1, lat = 2\<rparr>] ! 1)
   \<and> lat ([\<lparr>lon = 1, lat = 2\<rparr>, \<lparr>lon = 1, lat = 2\<rparr>] ! 0) = lat ([\<lparr>lon = 1, lat = 2\<rparr>, \<lparr>lon = 1, lat = 2\<rparr>] ! 1)
   \<and> \<not> Point_eq 0 1"
  by (simp add: new_Point_def Point_init_def Point_eq_def)

subsection \<open>The circle\<close>






subsection \<open>The batch distance\<close>

lemma cos_half_sin: "cos t = 1 - 2 * (sin (t / 2))\<^sup>2" for t :: real
proof -
  have "cos (2 * (t / 2)) = 1 - 2 * (sin (t / 2))\<^sup>2" by (rule cos_double_sin)
  moreover have "2 * (t / 2) = t" by simp
  ultimately show ?thesis by (simp only:)
qed

lemma cos_half_cos: "cos t = 2 * (cos (t / 2))\<^sup>2 - 1" for t :: real
proof -
  have "cos (2 * (t / 2)) = 2 * (cos (t / 2))\<^sup>2 - 1" by (rule cos_double_cos)
  moreover have "2 * (t / 2) = t" by simp
  ultimately show ?thesis by (simp only:)
qed

lemma haversine_term_range:
  fixes phi1 phi2 s :: real
  assumes "0 \<le> s" "s \<le> 1"
  shows "0 \<le> (sin ((phi2 - phi1) / 2))\<^sup>2 + cos phi1 * cos phi2 * s"
    and "(sin ((phi2 - phi1) / 2))\<^sup>2 + cos phi1 * cos phi2 * s \<le> 1"
proof -
  let ?u = "(sin ((phi2 - phi1) / 2))\<^sup>2"
  let ?v = "(cos ((phi2 + phi1) / 2))\<^sup>2"
  have prod: "cos phi1 * cos phi2 = ?v - ?u"
  proof -
    have "cos phi1 * cos phi2 = (cos (phi1 - phi2) + cos (phi1 + phi2)) / 2"
      by (rule cos_times_cos)
    moreover have "cos (phi1 - phi2) = 1 - 2 * ?u"
    proof -
      have "cos (phi1 - phi2) = cos (phi2 - phi1)"
        using cos_minus [of "phi2 - phi1"] by simp
      then show ?thesis using cos_half_sin [of "phi2 - phi1"] by (simp only:)
    qed
    moreover have "cos (phi1 + phi2) = 2 * ?v - 1"
      using cos_half_cos [of "phi2 + phi1"] by (simp only: add.commute)
    ultimately show ?thesis by simp
  qed
  have eq: "?u + cos phi1 * cos phi2 * s = (1 - s) * ?u + s * ?v"
    by (simp add: prod algebra_simps)
  have u0: "0 \<le> ?u" and v0: "0 \<le> ?v" by simp_all
  have u1: "?u \<le> 1" and v1: "?v \<le> 1"
    by (simp_all add: abs_square_le_1)
  have s': "0 \<le> 1 - s" using assms by simp
  show "0 \<le> ?u + cos phi1 * cos phi2 * s"
    unfolding eq using assms s' u0 v0 by (intro add_nonneg_nonneg mult_nonneg_nonneg)
  have "(1 - s) * ?u + s * ?v \<le> (1 - s) * 1 + s * 1"
    using assms s' u1 v1 by (intro add_mono mult_left_mono)
  then show "?u + cos phi1 * cos phi2 * s \<le> 1"
    unfolding eq by simp
qed

lemma atan2_sqrt_arcsin:
  assumes "0 \<le> a" "a \<le> 1"
  shows "atan2 (sqrt a) (sqrt (1 - a)) = arcsin (sqrt a)"
proof (cases "a = 1")
  case True
  then show ?thesis by (simp add: atan2_def)
next
  case False
  with assms have a1: "a < 1" by simp
  then have pos: "0 < sqrt (1 - a)" by simp
  have "sqrt a < 1" using a1 assms by (simp add: real_sqrt_lt_1_iff)
  moreover have "- 1 < sqrt a" using assms
    by (rule_tac less_le_trans [of _ 0]) simp_all
  ultimately have "arcsin (sqrt a) = arctan (sqrt a / sqrt (1 - (sqrt a)\<^sup>2))"
    by (intro arcsin_arctan)
  then show ?thesis using pos assms by (simp add: atan2_def)
qed

lemma vectorized_distance_element:
  fixes a :: real
  assumes "0 \<le> a" "a \<le> 1"
  shows "(case np_sqrt a of None \<Rightarrow> None
          | Some y \<Rightarrow> (case np_sqrt (1 - a) of None \<Rightarrow> None
                       | Some x \<Rightarrow> Some (6371 * 2 * atan2 y x)))
         = Some (2 * 6371 * arcsin (sqrt a))"
  using assms atan2_sqrt_arcsin [OF assms] by (simp add: np_sqrt_def)

text \<open>
  On one point or more the batch distance is, element by element and in order, the
  haversine distance from the reference on the sphere of radius 6371 km.
\<close>

lemma vectorized_distance_nonempty:
  assumes "points \<noteq> []"
  shows "vectorized_distance ref points = Inr (map (\<lambda>p. Some (haversine (unpack ref) p)) points)"
proof -
  obtain lo la where up: "unpack ref = (lo, la)" by (cases "unpack ref")
  define g :: "real \<Rightarrow> npfloat" where
    "g = (\<lambda>a_i. case np_sqrt a_i of None \<Rightarrow> None
               | Some y \<Rightarrow> (case np_sqrt (1 - a_i) of None \<Rightarrow> None
                            | Some x \<Rightarrow> Some (6371 * 2 * atan2 y x)))"
  define A :: "CoordinatesTuple \<Rightarrow> real" where
    "A = (\<lambda>p. (sin ((math_radians (snd p) - math_radians la) / 2))\<^sup>2
               + cos (math_radians la) * cos (math_radians (snd p))
                 * (sin ((math_radians (fst p) - math_radians lo) / 2))\<^sup>2)"
  have vd: "vectorized_distance ref points = Inr (map (\<lambda>p. g (A p)) points)"
    using assms
    by (simp add: vectorized_distance_def to_rad_def up Let_def zip_map_map
        zip_same_conv_map case_prod_beta comp_def g_def A_def
        cong del: option.case_cong_weak)
  have el: "g (A p) = Some (haversine (lo, la) p)" for p
  proof -
    let ?s = "(sin ((math_radians (fst p) - math_radians lo) / 2))\<^sup>2"
    have s0: "0 \<le> ?s" by simp
    have s1: "?s \<le> 1" by (simp add: abs_square_le_1)
    have r0: "0 \<le> A p" and r1: "A p \<le> 1"
      unfolding A_def
      using haversine_term_range [OF s0 s1, of "math_radians (snd p)" "math_radians la"]
      by simp_all
    have "g (A p) = Some (2 * 6371 * arcsin (sqrt (A p)))"
      unfolding g_def by (rule vectorized_distance_element [OF r0 r1])
    also have "2 * 6371 * arcsin (sqrt (A p)) = haversine (lo, la) p"
      by (simp add: haversine_def A_def math_radians_def Let_def)
    finally show ?thesis .
  qed
  show ?thesis by (simp add: vd el up)
qed

text \<open>
  C8. On the empty sequence of points \<open>vectorized_distance\<close> does not return the empty
  sequence of distances: the unpacking of the transposed array raises \<^verbatim>\<open>ValueError\<close>.
\<close>

theorem vectorized_distance_empty:
  "vectorized_distance (Tuple 2 48) [] = Inl ValueError"
  by (simp add: vectorized_distance_def)

subsection \<open>Bearing and destination at a pole\<close>

text \<open>
  From the north pole every destination lies on the meridian of longitude 0, whatever
  the bearing taken, and the bearing computed back to it is \<open>\<pi>\<close>: the bearing that led
  to the destination is not recovered there.
\<close>

lemma move_from_north_pole:
  "move (Tuple 0 90) theta 1000 = Inr (0, math_degrees (pi / 2 - 1000 / 6371))"
proof -
  have d: "(0::real) \<le> 1000 / 6371" "(1000::real) / 6371 \<le> pi"
    using pi_ge_two by simp_all
  have "arcsin (cos (1000 / 6371)) = arcsin (sin (pi / 2 - 1000 / 6371))"
    by (simp add: sin_diff)
  also have "\<dots> = pi / 2 - 1000 / 6371"
    using d by (intro arcsin_sin) simp_all
  finally have as: "arcsin (cos (1000 / 6371)) = pi / 2 - 1000 / 6371" .
  show ?thesis
    by (simp add: move_def to_rad_def to_deg_def math_radians_def math_asin_def Let_def as
        atan2_def sin_diff)
       (simp add: math_degrees_def)
qed

lemma angle_back_to_north_pole:
  "angle (Tuple 0 90) (Tuple 0 (math_degrees (pi / 2 - 1000 / 6371))) = Inr pi"
proof -
  have "(0::real) < 1000 / 6371" "(1000::real) / 6371 < pi"
    using pi_ge_two by simp_all
  then have s: "0 < sin (1000 / 6371 :: real)" by (rule sin_gt_zero)
  have r: "math_radians (math_degrees (pi / 2 - 1000 / 6371)) = pi / 2 - 1000 / 6371"
    by (simp add: math_radians_def math_degrees_def)
  have f: "\<lfloor>pi / (2 * pi)\<rfloor> = 0" by simp
  have n: "normalize_angle pi = Inr pi"
    by (simp add: normalize_angle_def float_mod_def)
  have c: "cos (pi / 2 - 1000 / 6371) = sin (1000 / 6371 :: real)"
    by (simp add: cos_diff)
  show ?thesis
    using s
    by (simp add: angle_def to_rad_def r Let_def atan2_def n c)
       (simp add: math_radians_def)
qed

end
